theory Spec2Isabelle
  imports Complex_Main
begin

section \<open>The SNIST dataset loader (snist/dataset.py)\<close>

text \<open>
  The module downloads six raw array files, converts them to tensors, stores four
  (features, targets) pairs in a processed cache and serves one of them by index.
  The array and tensor libraries, the file system and the fetcher are outside the
  module; they are modelled only as far as the module observes them:
  \<^item> an array or tensor is its shape together with its elements in row-major (C) order,
    the layout \<^verbatim>\<open>np.load\<close> produces for a C-ordered file; strides are not modelled;
  \<^item> the element type is a type variable, and the cast \<^verbatim>\<open>.float()\<close> is a function
    on elements supplied from outside (the rounding of a cast is
    the tensor library's matter);
  \<^item> the file system is a map from path strings to nodes, compared as strings;
  \<^item> every call that reaches outside the process leaves an event in a trace, so
    that "nothing was fetched, loaded or written" is a statement about the trace.
\<close>

subsection \<open>Exceptions\<close>

text \<open>
  The exceptions the module or its collaborators raise. \<open>OSError\<close> carries the errno;
  \<open>RuntimeError\<close> carries its message. \<open>ValueError\<close> stands for \<^verbatim>\<open>np.load\<close> rejecting
  a file that holds no array, and for the tensor library rejecting an index that does
  not fit a signed 64-bit integer; \<open>UnpicklingError\<close> stands for \<^verbatim>\<open>torch.load\<close>
  rejecting a file that holds no saved pair.
\<close>

datatype py_error =
    IndexError
  | TypeError
  | ValueError
  | RuntimeError string
  | UnboundLocalError
  | UnpicklingError
  | OSError nat
  | OtherError string

definition EEXIST :: nat where "EEXIST = 17"
definition ENOENT :: nat where "ENOENT = 2"
definition ENOTDIR :: nat where "ENOTDIR = 20"
definition EISDIR :: nat where "EISDIR = 21"

subsection \<open>Arrays and tensors\<close>

record 'a ndarray =
  a_shape :: "nat list"
  a_data :: "'a list"

record 'a tensor =
  shape :: "nat list"
  elems :: "'a list"

text \<open>\<^verbatim>\<open>data.shape[k]\<close>: indexing the shape tuple with a non-negative constant.\<close>

definition shape_at :: "nat list \<Rightarrow> nat \<Rightarrow> py_error + nat" where
  "shape_at s k = (if k < length s then Inr (s ! k) else Inl IndexError)"

text \<open>\<^verbatim>\<open>torch.from_numpy\<close>: same shape, same elements.\<close>

definition from_numpy :: "'a ndarray \<Rightarrow> 'a tensor" where
  "from_numpy d = \<lparr>shape = a_shape d, elems = a_data d\<rparr>"

text \<open>The number of elements of a tensor is the product of its sizes.\<close>

definition numel :: "'a tensor \<Rightarrow> nat" where
  "numel t = prod_list (shape t)"

text \<open>
  \<^verbatim>\<open>t.view(*sizes)\<close> on a contiguous tensor: the sizes must multiply to the number
  of elements, otherwise a RuntimeError; the elements stay as they are.
\<close>

definition view :: "'a tensor \<Rightarrow> nat list \<Rightarrow> py_error + 'a tensor" where
  "view t sizes =
     (if prod_list sizes = numel t then Inr (t\<lparr>shape := sizes\<rparr>)
      else Inl (RuntimeError ''shape is invalid for input size''))"

text \<open>\<^verbatim>\<open>t.float()\<close>: the cast applied to every element.\<close>

definition float :: "('a \<Rightarrow> 'f) \<Rightarrow> 'a tensor \<Rightarrow> 'f tensor" where
  "float cast t = \<lparr>shape = shape t, elems = map cast (elems t)\<rparr>"

subsection \<open>The file system and the trace\<close>

datatype ('a, 'f) content =
    Npy "'a ndarray"
  | Pt "'f tensor \<times> 'f tensor"
  | Other

datatype ('a, 'f) node = Dir | File "('a, 'f) content"

datatype event =
    EMakedirs string
  | EFetch string string string
  | EPrint string
  | ENpLoad string
  | ETorchSave string
  | ETorchLoad string
  | EWarn string

record ('a, 'f) world =
  fs :: "string \<rightharpoonup> ('a, 'f) node"
  trace :: "event list"

definition emit :: "event \<Rightarrow> ('a, 'f) world \<Rightarrow> ('a, 'f) world" where
  "emit e w = w\<lparr>trace := trace w @ [e]\<rparr>"

text \<open>
  \<^verbatim>\<open>np.load(path)\<close>: the array stored at the path; a missing path, a directory and a
  file that holds no array are errors. The file system is only read.
\<close>

definition np_load ::
  "string \<Rightarrow> ('a, 'f) world \<Rightarrow> (py_error + 'a ndarray) \<times> ('a, 'f) world" where
  "np_load path w =
     (case fs w path of
        None \<Rightarrow> Inl (OSError ENOENT)
      | Some Dir \<Rightarrow> Inl (OSError EISDIR)
      | Some (File (Npy d)) \<Rightarrow> Inr d
      | Some (File _) \<Rightarrow> Inl ValueError,
      emit (ENpLoad path) w)"

subsection \<open>Converter\<close>

definition read_velocity_file ::
  "('a \<Rightarrow> 'f) \<Rightarrow> string \<Rightarrow> ('a, 'f) world \<Rightarrow> (py_error + 'f tensor) \<times> ('a, 'f) world" where
  "read_velocity_file cast path w =
     (case np_load path w of
        (Inl e, w') \<Rightarrow> (Inl e, w')
      | (Inr d, w') \<Rightarrow> (Inr (float cast (from_numpy d)), w'))"

text \<open>
  \<^verbatim>\<open>torch.from_numpy(data).view(data.shape[0], 1, data.shape[1], data.shape[2]).float()\<close>:
  the three shape reads come first, in this order, then the view, then the cast.
\<close>

definition amplitude_tensor :: "('a \<Rightarrow> 'f) \<Rightarrow> 'a ndarray \<Rightarrow> py_error + 'f tensor" where
  "amplitude_tensor cast d =
     (case shape_at (a_shape d) 0 of
        Inl e \<Rightarrow> Inl e
      | Inr n \<Rightarrow>
     (case shape_at (a_shape d) 1 of
        Inl e \<Rightarrow> Inl e
      | Inr h \<Rightarrow>
     (case shape_at (a_shape d) 2 of
        Inl e \<Rightarrow> Inl e
      | Inr wd \<Rightarrow>
     (case view (from_numpy d) [n, 1, h, wd] of
        Inl e \<Rightarrow> Inl e
      | Inr t \<Rightarrow> Inr (float cast t)))))"

definition read_amplitude_file ::
  "('a \<Rightarrow> 'f) \<Rightarrow> string \<Rightarrow> ('a, 'f) world \<Rightarrow> (py_error + 'f tensor) \<times> ('a, 'f) world" where
  "read_amplitude_file cast path w =
     (case np_load path w of
        (Inl e, w') \<Rightarrow> (Inl e, w')
      | (Inr d, w') \<Rightarrow> (amplitude_tensor cast d, w'))"

subsection \<open>Paths\<close>

text \<open>
  \<^verbatim>\<open>os.path.join(a, b)\<close> on POSIX: an absolute \<open>b\<close> replaces \<open>a\<close>; otherwise \<open>b\<close> is
  appended, after a separator unless \<open>a\<close> is empty or already ends with one.
\<close>

definition path_join :: "string \<Rightarrow> string \<Rightarrow> string" where
  "path_join a b =
     (if b \<noteq> [] \<and> hd b = CHR ''/'' then b
      else if a = [] \<or> last a = CHR ''/'' then a @ b
      else a @ ''/'' @ b)"

text \<open>
  \<^verbatim>\<open>os.path.dirname(p)\<close> on POSIX: everything up to the last separator, without
  trailing separators unless it consists of separators only.
\<close>

definition dirname :: "string \<Rightarrow> string" where
  "dirname p =
     (let head = rev (dropWhile (\<lambda>c. c \<noteq> CHR ''/'') (rev p))
      in if head \<noteq> [] \<and> \<not> list_all (\<lambda>c. c = CHR ''/'') head
         then rev (dropWhile (\<lambda>c. c = CHR ''/'') (rev head))
         else head)"

text \<open>\<^verbatim>\<open>url.rpartition('/')[2]\<close>: what follows the last separator (all of it if there is none).\<close>

definition rpartition_tail :: "string \<Rightarrow> string" where
  "rpartition_tail url = rev (takeWhile (\<lambda>c. c \<noteq> CHR ''/'') (rev url))"

subsection \<open>Collaborators\<close>

text \<open>
  What the module calls and does not define is a parameter: \<open>expanduser\<close> is
  \<^verbatim>\<open>os.path.expanduser\<close>; \<open>os_makedirs\<close> is \<^verbatim>\<open>os.makedirs\<close>, which returns the file
  system it leaves and the errno of the OSError it raised, if any; \<open>download_url\<close> is
  torchvision's fetcher with its url, root and filename arguments (\<^verbatim>\<open>md5\<close> is always
  None), which returns the file system it leaves and the exception it raised, if any;
  \<open>to_float\<close> is the element cast of \<^verbatim>\<open>.float()\<close>.
\<close>

record ('a, 'f) ext =
  expanduser :: "string \<Rightarrow> string"
  os_makedirs :: "string \<Rightarrow> (string \<rightharpoonup> ('a, 'f) node) \<Rightarrow> nat option \<times> (string \<rightharpoonup> ('a, 'f) node)"
  download_url ::
    "string \<Rightarrow> string \<Rightarrow> string \<Rightarrow> (string \<rightharpoonup> ('a, 'f) node)
       \<Rightarrow> py_error option \<times> (string \<rightharpoonup> ('a, 'f) node)"
  to_float :: "'a \<Rightarrow> 'f"

text \<open>Sequencing of calls that may raise: the first exception ends the sequence.\<close>

definition bind_io ::
  "('w \<Rightarrow> (py_error + 'b) \<times> 'w) \<Rightarrow> ('b \<Rightarrow> 'w \<Rightarrow> (py_error + 'c) \<times> 'w)
     \<Rightarrow> 'w \<Rightarrow> (py_error + 'c) \<times> 'w" where
  "bind_io m f w = (case m w of (Inl e, w') \<Rightarrow> (Inl e, w') | (Inr v, w') \<Rightarrow> f v w')"

definition print :: "string \<Rightarrow> ('a, 'f) world \<Rightarrow> (py_error + unit) \<times> ('a, 'f) world" where
  "print s w = (Inr (), emit (EPrint s) w)"

text \<open>\<^verbatim>\<open>os.path.exists(p)\<close>: some node, file or directory, is at the path.\<close>

definition exists :: "string \<Rightarrow> ('a, 'f) world \<Rightarrow> bool" where
  "exists p w = (fs w p \<noteq> None)"

text \<open>
  \<^verbatim>\<open>with open(path, 'wb') as f: torch.save(obj, f)\<close>. Opening for writing needs the
  parent directory (the working directory for a bare file name) and refuses a
  directory; then the file holds the saved pair, replacing what was there.
\<close>

definition torch_save ::
  "string \<Rightarrow> 'f tensor \<times> 'f tensor \<Rightarrow> ('a, 'f) world \<Rightarrow> (py_error + unit) \<times> ('a, 'f) world" where
  "torch_save path obj w =
     (if dirname path \<noteq> [] \<and> fs w (dirname path) = None then (Inl (OSError ENOENT), w)
      else if dirname path \<noteq> [] \<and> fs w (dirname path) \<noteq> Some Dir then (Inl (OSError ENOTDIR), w)
      else if fs w path = Some Dir then (Inl (OSError EISDIR), w)
      else (Inr (), emit (ETorchSave path) (w\<lparr>fs := (fs w)(path \<mapsto> File (Pt obj))\<rparr>)))"

text \<open>
  \<^verbatim>\<open>torch.load(path)\<close> followed by the unpacking into two values: the pair a cache
  entry holds; anything else at the path is an error. The file system is only read.
\<close>

definition torch_load ::
  "string \<Rightarrow> ('a, 'f) world \<Rightarrow> (py_error + 'f tensor \<times> 'f tensor) \<times> ('a, 'f) world" where
  "torch_load path w =
     (case fs w path of
        None \<Rightarrow> Inl (OSError ENOENT)
      | Some Dir \<Rightarrow> Inl (OSError EISDIR)
      | Some (File (Pt obj)) \<Rightarrow> Inr obj
      | Some (File _) \<Rightarrow> Inl UnpicklingError,
      emit (ETorchLoad path) w)"

subsection \<open>makedir\_exist\_ok\<close>

definition makedir_exist_ok ::
  "('a, 'f) ext \<Rightarrow> string \<Rightarrow> ('a, 'f) world \<Rightarrow> (py_error + unit) \<times> ('a, 'f) world" where
  "makedir_exist_ok x dirpath w =
     (case os_makedirs x dirpath (fs w) of
        (None, fs') \<Rightarrow> (Inr (), emit (EMakedirs dirpath) (w\<lparr>fs := fs'\<rparr>))
      | (Some errno, fs') \<Rightarrow>
          (if errno = EEXIST then Inr () else Inl (OSError errno),
           emit (EMakedirs dirpath) (w\<lparr>fs := fs'\<rparr>)))"

subsection \<open>Class constants\<close>

definition urls :: "string list" where
  "urls =
    [''https://raw.githubusercontent.com/LukasMosser/SNIST/master/data/train/train_amplitudes.npy'',
     ''https://raw.githubusercontent.com/LukasMosser/SNIST/master/data/train/train_velocities.npy'',
     ''https://raw.githubusercontent.com/LukasMosser/SNIST/master/data/test/test_amplitudes.npy'',
     ''https://raw.githubusercontent.com/LukasMosser/SNIST/master/data/test/test_velocities.npy'',
     ''https://raw.githubusercontent.com/LukasMosser/SNIST/master/data/test/test_amplitudes_noise_1.npy'',
     ''https://raw.githubusercontent.com/LukasMosser/SNIST/master/data/test/test_amplitudes_noise_2.npy'']"

definition training_file :: string where "training_file = ''training.pt''"
definition test_file_noise_0 :: string where "test_file_noise_0 = ''test_noise_0.pt''"
definition test_file_noise_1 :: string where "test_file_noise_1 = ''test_noise_1.pt''"
definition test_file_noise_2 :: string where "test_file_noise_2 = ''test_noise_2.pt''"

text \<open>The two folder properties; the class name is \<^verbatim>\<open>SNIST\<close>.\<close>

definition raw_folder :: "string \<Rightarrow> string" where
  "raw_folder r = path_join (path_join r ''SNIST'') ''raw''"

definition processed_folder :: "string \<Rightarrow> string" where
  "processed_folder r = path_join (path_join r ''SNIST'') ''processed''"

subsection \<open>The cache: \_check\_exists and download\<close>

definition check_exists :: "string \<Rightarrow> ('a, 'f) world \<Rightarrow> bool" where
  "check_exists r w =
     (exists (path_join (processed_folder r) training_file) w \<and>
      exists (path_join (processed_folder r) test_file_noise_0) w \<and>
      exists (path_join (processed_folder r) test_file_noise_1) w \<and>
      exists (path_join (processed_folder r) test_file_noise_2) w)"

text \<open>
  The loop over the urls. (\<^verbatim>\<open>file_path\<close> is computed in the source and not used.)
\<close>

fun download_files ::
  "('a, 'f) ext \<Rightarrow> string \<Rightarrow> string list \<Rightarrow> ('a, 'f) world \<Rightarrow> (py_error + unit) \<times> ('a, 'f) world" where
  "download_files x raw [] w = (Inr (), w)"
| "download_files x raw (url # rest) w =
     (let filename = rpartition_tail url in
      case download_url x url raw filename (fs w) of
        (Some e, fs') \<Rightarrow> (Inl e, emit (EFetch url raw filename) (w\<lparr>fs := fs'\<rparr>))
      | (None, fs') \<Rightarrow> download_files x raw rest (emit (EFetch url raw filename) (w\<lparr>fs := fs'\<rparr>)))"

definition download ::
  "('a, 'f) ext \<Rightarrow> string \<Rightarrow> ('a, 'f) world \<Rightarrow> (py_error + unit) \<times> ('a, 'f) world" where
  "download x r w =
     (if check_exists r w then (Inr (), w)
      else
       bind_io (makedir_exist_ok x (raw_folder r)) (\<lambda>_.
       bind_io (makedir_exist_ok x (processed_folder r)) (\<lambda>_.
       bind_io (download_files x (raw_folder r) urls) (\<lambda>_.
       bind_io (print ''Processing...'') (\<lambda>_.
       bind_io (read_amplitude_file (to_float x) (path_join (raw_folder r) ''train_amplitudes.npy'')) (\<lambda>a_train.
       bind_io (read_velocity_file (to_float x) (path_join (raw_folder r) ''train_velocities.npy'')) (\<lambda>v_train.
       bind_io (read_amplitude_file (to_float x) (path_join (raw_folder r) ''test_amplitudes.npy'')) (\<lambda>a_0.
       bind_io (read_velocity_file (to_float x) (path_join (raw_folder r) ''test_velocities.npy'')) (\<lambda>v_0.
       bind_io (read_amplitude_file (to_float x) (path_join (raw_folder r) ''test_amplitudes_noise_1.npy'')) (\<lambda>a_1.
       bind_io (read_velocity_file (to_float x) (path_join (raw_folder r) ''test_velocities.npy'')) (\<lambda>v_1.
       bind_io (read_amplitude_file (to_float x) (path_join (raw_folder r) ''test_amplitudes_noise_2.npy'')) (\<lambda>a_2.
       bind_io (read_velocity_file (to_float x) (path_join (raw_folder r) ''test_velocities.npy'')) (\<lambda>v_2.
       bind_io (torch_save (path_join (processed_folder r) training_file) (a_train, v_train)) (\<lambda>_.
       bind_io (torch_save (path_join (processed_folder r) test_file_noise_0) (a_0, v_0)) (\<lambda>_.
       bind_io (torch_save (path_join (processed_folder r) test_file_noise_1) (a_1, v_1)) (\<lambda>_.
       bind_io (torch_save (path_join (processed_folder r) test_file_noise_2) (a_2, v_2)) (\<lambda>_.
       print ''Done!'')))))))))))))))) w)"

subsection \<open>The dataset object\<close>

text \<open>
  A transform is an opaque callable: it returns a tensor or some other object, or
  raises. With no transform the item is the tensor itself.
\<close>

datatype ('f, 'x) pyval = Tensor "'f tensor" | Obj 'x

record ('f, 'x) dataset =
  root :: string
  transform :: "('f tensor \<Rightarrow> py_error + ('f, 'x) pyval) option"
  target_transform :: "('f tensor \<Rightarrow> py_error + ('f, 'x) pyval) option"
  train :: bool
  data :: "'f tensor"
  targets :: "'f tensor"

text \<open>
  The constructor. When \<open>train\<close> is false and \<open>noise\<close> is none of 0, 1, 2, no branch
  assigns \<^verbatim>\<open>data_file\<close>, and reading it for the path raises UnboundLocalError
  before \<^verbatim>\<open>torch.load\<close> is called.
\<close>

definition data_file_of :: "bool \<Rightarrow> int \<Rightarrow> string option" where
  "data_file_of tr noise =
     (if tr then Some training_file
      else if noise = 0 then Some test_file_noise_0
      else if noise = 1 then Some test_file_noise_1
      else if noise = 2 then Some test_file_noise_2
      else None)"

definition init ::
  "('a, 'f) ext \<Rightarrow> string \<Rightarrow> bool \<Rightarrow> int
     \<Rightarrow> ('f tensor \<Rightarrow> py_error + ('f, 'x) pyval) option
     \<Rightarrow> ('f tensor \<Rightarrow> py_error + ('f, 'x) pyval) option
     \<Rightarrow> bool \<Rightarrow> ('a, 'f) world \<Rightarrow> (py_error + ('f, 'x) dataset) \<times> ('a, 'f) world" where
  "init x r tr noise tf ttf dl w =
     (let self_root = expanduser x r in
      case (if dl then download x self_root w else (Inr (), w)) of
        (Inl e, w1) \<Rightarrow> (Inl e, w1)
      | (Inr _, w1) \<Rightarrow>
          if \<not> check_exists self_root w1
          then (Inl (RuntimeError ''Dataset not found. You can use download=True to download it''), w1)
          else
            (case data_file_of tr noise of
               None \<Rightarrow> (Inl UnboundLocalError, w1)
             | Some data_file \<Rightarrow>
                 (case torch_load (path_join (processed_folder self_root) data_file) w1 of
                    (Inl e, w2) \<Rightarrow> (Inl e, w2)
                  | (Inr (d, t), w2) \<Rightarrow>
                      (Inr \<lparr>root = self_root, transform = tf, target_transform = ttf,
                            train = tr, data = d, targets = t\<rparr>, w2))))"

subsection \<open>Indexed access\<close>

text \<open>
  \<^verbatim>\<open>t[index]\<close> for an integer index: the sub-tensor at that position of the leading
  dimension. The index is a Python integer of any size, and the tensor library first
  unpacks it into a signed 64-bit integer: one that does not fit raises ValueError
  (overflow), whatever the tensor. After that a negative index counts from the end; an
  index outside \<open>-n \<le> index < n\<close> and any index into a 0-dimensional tensor raise
  IndexError.
\<close>

definition fits_int64 :: "int \<Rightarrow> bool" where
  "fits_int64 i = (- (2 ^ 63) \<le> i \<and> i < 2 ^ 63)"

definition row :: "'f tensor \<Rightarrow> nat \<Rightarrow> 'f tensor" where
  "row t k =
     \<lparr>shape = tl (shape t),
      elems = take (prod_list (tl (shape t))) (drop (k * prod_list (tl (shape t))) (elems t))\<rparr>"

definition tensor_index :: "'f tensor \<Rightarrow> int \<Rightarrow> py_error + 'f tensor" where
  "tensor_index t i =
     (if \<not> fits_int64 i then Inl ValueError
      else
       (case shape t of
          [] \<Rightarrow> Inl IndexError
        | n # _ \<Rightarrow>
            (let j = (if i < 0 then i + int n else i)
             in if 0 \<le> j \<and> j < int n then Inr (row t (nat j)) else Inl IndexError)))"

text \<open>\<^verbatim>\<open>if f is not None: v = f(v)\<close>\<close>

definition apply_opt ::
  "('f tensor \<Rightarrow> py_error + ('f, 'x) pyval) option \<Rightarrow> 'f tensor \<Rightarrow> py_error + ('f, 'x) pyval" where
  "apply_opt f v = (case f of None \<Rightarrow> Inr (Tensor v) | Some g \<Rightarrow> g v)"

definition getitem ::
  "('f, 'x) dataset \<Rightarrow> int \<Rightarrow> py_error + ('f, 'x) pyval \<times> ('f, 'x) pyval" where
  "getitem self i =
     (case tensor_index (data self) i of
        Inl e \<Rightarrow> Inl e
      | Inr img \<Rightarrow>
     (case tensor_index (targets self) i of
        Inl e \<Rightarrow> Inl e
      | Inr target \<Rightarrow>
     (case apply_opt (transform self) img of
        Inl e \<Rightarrow> Inl e
      | Inr img' \<Rightarrow>
     (case apply_opt (target_transform self) target of
        Inl e \<Rightarrow> Inl e
      | Inr target' \<Rightarrow> Inr (img', target')))))"

text \<open>\<^verbatim>\<open>len(self.data)\<close>: the leading size; a 0-dimensional tensor has no length.\<close>

definition len :: "('f, 'x) dataset \<Rightarrow> py_error + nat" where
  "len self = (case shape (data self) of [] \<Rightarrow> Inl TypeError | n # _ \<Rightarrow> Inr n)"

subsection \<open>The renamed attributes\<close>

text \<open>Each property issues its warning and returns the attribute under its new name.\<close>

definition warn :: "string \<Rightarrow> ('a, 'f) world \<Rightarrow> ('a, 'f) world" where
  "warn msg w = emit (EWarn msg) w"

definition train_labels :: "('f, 'x) dataset \<Rightarrow> ('a, 'f) world \<Rightarrow> 'f tensor \<times> ('a, 'f) world" where
  "train_labels self w = (targets self, warn ''train_labels has been renamed targets'' w)"

definition test_labels :: "('f, 'x) dataset \<Rightarrow> ('a, 'f) world \<Rightarrow> 'f tensor \<times> ('a, 'f) world" where
  "test_labels self w = (targets self, warn ''test_labels has been renamed targets'' w)"

definition train_data :: "('f, 'x) dataset \<Rightarrow> ('a, 'f) world \<Rightarrow> 'f tensor \<times> ('a, 'f) world" where
  "train_data self w = (data self, warn ''train_data has been renamed data'' w)"

definition test_data :: "('f, 'x) dataset \<Rightarrow> ('a, 'f) world \<Rightarrow> 'f tensor \<times> ('a, 'f) world" where
  "test_data self w = (data self, warn ''test_data has been renamed data'' w)"

subsection \<open>What a rebuild leaves in the trace\<close>

text \<open>
  The events of one complete run of \<^verbatim>\<open>download\<close> past its existence check, in the
  order of the source: two directories, six fetches, the first message, eight array
  loads (the test velocities three times), four saves, the last message.
\<close>

definition rebuild_events :: "string \<Rightarrow> event list" where
  "rebuild_events r =
     [EMakedirs (raw_folder r), EMakedirs (processed_folder r)] @
     map (\<lambda>url. EFetch url (raw_folder r) (rpartition_tail url)) urls @
     [EPrint ''Processing...'',
      ENpLoad (path_join (raw_folder r) ''train_amplitudes.npy''),
      ENpLoad (path_join (raw_folder r) ''train_velocities.npy''),
      ENpLoad (path_join (raw_folder r) ''test_amplitudes.npy''),
      ENpLoad (path_join (raw_folder r) ''test_velocities.npy''),
      ENpLoad (path_join (raw_folder r) ''test_amplitudes_noise_1.npy''),
      ENpLoad (path_join (raw_folder r) ''test_velocities.npy''),
      ENpLoad (path_join (raw_folder r) ''test_amplitudes_noise_2.npy''),
      ENpLoad (path_join (raw_folder r) ''test_velocities.npy''),
      ETorchSave (path_join (processed_folder r) training_file),
      ETorchSave (path_join (processed_folder r) test_file_noise_0),
      ETorchSave (path_join (processed_folder r) test_file_noise_1),
      ETorchSave (path_join (processed_folder r) test_file_noise_2),
      EPrint ''Done!'']"

subsection \<open>Sample inputs\<close>

text \<open>
  Concrete inputs on which the properties below are exercised: a file system with
  arrays of several ranks; a dataset of three samples, without and with transforms
  (\<open>negate\<close> on the feature, \<open>total\<close> on the target); a fetcher that serves six small
  arrays and an \<^verbatim>\<open>os.makedirs\<close> that creates the directory or reports EEXIST; an empty
  world, a world with a full cache under \<^verbatim>\<open>data\<close>, and the worlds a rebuild from the
  empty one passes through.
\<close>

definition converter_world :: "(int, real) world" where
  "converter_world =
     \<lparr>fs = [''amp.npy'' \<mapsto> File (Npy \<lparr>a_shape = [2, 1, 2], a_data = [1, 2, 3, 4]\<rparr>),
            ''none.npy'' \<mapsto> File (Npy \<lparr>a_shape = [0, 2, 3], a_data = []\<rparr>),
            ''flat.npy'' \<mapsto> File (Npy \<lparr>a_shape = [2, 2], a_data = [1, 2, 3, 4]\<rparr>),
            ''deep.npy'' \<mapsto> File (Npy \<lparr>a_shape = [1, 2, 1, 2], a_data = [1, 2, 3, 4]\<rparr>),
            ''thin.npy'' \<mapsto> File (Npy \<lparr>a_shape = [1, 2, 2, 1], a_data = [1, 2, 3, 4]\<rparr>)],
      trace = []\<rparr>"

definition ds3 :: "(real, real) dataset" where
  "ds3 = \<lparr>root = ''data'', transform = None, target_transform = None, train = True,
          data = \<lparr>shape = [3, 1, 1, 2], elems = [1, 2, 3, 4, 5, 6]\<rparr>,
          targets = \<lparr>shape = [3], elems = [10, 20, 30]\<rparr>\<rparr>"

definition negate :: "real tensor \<Rightarrow> py_error + (real, real) pyval" where
  "negate t = Inr (Tensor (t\<lparr>elems := map uminus (elems t)\<rparr>))"

definition total :: "real tensor \<Rightarrow> py_error + (real, real) pyval" where
  "total t = Inr (Obj (sum_list (elems t)))"

definition ds3_transformed :: "(real, real) dataset" where
  "ds3_transformed = ds3\<lparr>transform := Some negate, target_transform := Some total\<rparr>"

definition sample_remote :: "string \<Rightarrow> int ndarray option" where
  "sample_remote url =
     (if rpartition_tail url = ''train_amplitudes.npy''
        then Some \<lparr>a_shape = [2, 1, 2], a_data = [1, 2, 3, 4]\<rparr>
      else if rpartition_tail url = ''train_velocities.npy''
        then Some \<lparr>a_shape = [2], a_data = [5, 6]\<rparr>
      else if rpartition_tail url = ''test_amplitudes.npy''
        then Some \<lparr>a_shape = [1, 1, 2], a_data = [7, 8]\<rparr>
      else if rpartition_tail url = ''test_velocities.npy''
        then Some \<lparr>a_shape = [1], a_data = [9]\<rparr>
      else if rpartition_tail url = ''test_amplitudes_noise_1.npy''
        then Some \<lparr>a_shape = [1, 1, 2], a_data = [10, 11]\<rparr>
      else if rpartition_tail url = ''test_amplitudes_noise_2.npy''
        then Some \<lparr>a_shape = [1, 1, 2], a_data = [12, 13]\<rparr>
      else None)"

definition sample_ext :: "(int, real) ext" where
  "sample_ext =
     \<lparr>expanduser = (\<lambda>p. p),
      os_makedirs = (\<lambda>p f. if f p \<noteq> None then (Some EEXIST, f) else (None, f(p \<mapsto> Dir))),
      download_url = (\<lambda>url rt filename f.
         case sample_remote url of
           None \<Rightarrow> (Some (OtherError ''HTTP Error 404''), f)
         | Some d \<Rightarrow> (None, f(path_join rt filename \<mapsto> File (Npy d)))),
      to_float = real_of_int\<rparr>"

definition empty_world :: "(int, real) world" where
  "empty_world = \<lparr>fs = Map.empty, trace = []\<rparr>"

definition cached_world :: "(int, real) world" where
  "cached_world =
     \<lparr>fs = [''data/SNIST/processed/training.pt'' \<mapsto>
              File (Pt (\<lparr>shape = [2, 1, 1, 2], elems = [1, 2, 3, 4]\<rparr>, \<lparr>shape = [2], elems = [5, 6]\<rparr>)),
            ''data/SNIST/processed/test_noise_0.pt'' \<mapsto>
              File (Pt (\<lparr>shape = [1, 1, 1, 2], elems = [7, 8]\<rparr>, \<lparr>shape = [1], elems = [9]\<rparr>)),
            ''data/SNIST/processed/test_noise_1.pt'' \<mapsto>
              File (Pt (\<lparr>shape = [1, 1, 1, 2], elems = [10, 11]\<rparr>, \<lparr>shape = [1], elems = [9]\<rparr>)),
            ''data/SNIST/processed/test_noise_2.pt'' \<mapsto>
              File (Pt (\<lparr>shape = [1, 1, 1, 2], elems = [12, 13]\<rparr>, \<lparr>shape = [1], elems = [9]\<rparr>))],
      trace = []\<rparr>"

definition made_world :: "(int, real) world" where
  "made_world =
     \<lparr>fs = [''data/SNIST/raw'' \<mapsto> Dir, ''data/SNIST/processed'' \<mapsto> Dir],
      trace = [EMakedirs ''data/SNIST/raw'', EMakedirs ''data/SNIST/processed'']\<rparr>"

definition fetched_world :: "(int, real) world" where
  "fetched_world =
     \<lparr>fs = [''data/SNIST/raw'' \<mapsto> Dir, ''data/SNIST/processed'' \<mapsto> Dir,
            ''data/SNIST/raw/train_amplitudes.npy'' \<mapsto> File (Npy \<lparr>a_shape = [2, 1, 2], a_data = [1, 2, 3, 4]\<rparr>),
            ''data/SNIST/raw/train_velocities.npy'' \<mapsto> File (Npy \<lparr>a_shape = [2], a_data = [5, 6]\<rparr>),
            ''data/SNIST/raw/test_amplitudes.npy'' \<mapsto> File (Npy \<lparr>a_shape = [1, 1, 2], a_data = [7, 8]\<rparr>),
            ''data/SNIST/raw/test_velocities.npy'' \<mapsto> File (Npy \<lparr>a_shape = [1], a_data = [9]\<rparr>),
            ''data/SNIST/raw/test_amplitudes_noise_1.npy'' \<mapsto> File (Npy \<lparr>a_shape = [1, 1, 2], a_data = [10, 11]\<rparr>),
            ''data/SNIST/raw/test_amplitudes_noise_2.npy'' \<mapsto> File (Npy \<lparr>a_shape = [1, 1, 2], a_data = [12, 13]\<rparr>)],
      trace = [EMakedirs ''data/SNIST/raw'', EMakedirs ''data/SNIST/processed''] @
              map (\<lambda>url. EFetch url ''data/SNIST/raw'' (rpartition_tail url)) urls\<rparr>"

definition loaded_ds :: "(real, real) dataset" where
  "loaded_ds =
     \<lparr>root = ''data'', transform = None, target_transform = None, train = False,
      data = \<lparr>shape = [1, 1, 1, 2], elems = [10, 11]\<rparr>,
      targets = \<lparr>shape = [1], elems = [9]\<rparr>\<rparr>"

section \<open>Properties\<close>

subsection \<open>Events and sequencing\<close>

lemma fs_emit [simp]: "fs (emit e w) = fs w"
  by (simp add: emit_def)

lemma trace_emit [simp]: "trace (emit e w) = trace w @ [e]"
  by (simp add: emit_def)

lemma exists_emit [simp]: "exists p (emit e w) = exists p w"
  by (simp add: exists_def)

lemma check_exists_emit [simp]: "check_exists r (emit e w) = check_exists r w"
  by (simp add: check_exists_def)

lemma bind_io_Inr_iff:
  "bind_io m f w = (Inr v, w') \<longleftrightarrow> (\<exists>a w1. m w = (Inr a, w1) \<and> f a w1 = (Inr v, w'))"
  by (auto simp: bind_io_def split: prod.splits sum.splits)

lemma snd_np_load [simp]: "snd (np_load p w) = emit (ENpLoad p) w"
  by (simp add: np_load_def)

lemma fst_np_load_cong: "fs w p = fs w2 p \<Longrightarrow> fst (np_load p w) = fst (np_load p w2)"
  by (simp add: np_load_def)

lemma read_amplitude_file_split:
  "read_amplitude_file c p w = (fst (read_amplitude_file c p w), emit (ENpLoad p) w)"
  by (cases "np_load p w") (auto simp: read_amplitude_file_def np_load_def split: sum.splits)

lemma read_velocity_file_split:
  "read_velocity_file c p w = (fst (read_velocity_file c p w), emit (ENpLoad p) w)"
  by (cases "np_load p w") (auto simp: read_velocity_file_def np_load_def split: sum.splits)

lemma fst_read_amplitude_file_cong:
  "fs w p = fs w2 p \<Longrightarrow> fst (read_amplitude_file c p w) = fst (read_amplitude_file c p w2)"
  by (simp add: read_amplitude_file_def np_load_def split: prod.splits sum.splits)

lemma fst_read_velocity_file_cong:
  "fs w p = fs w2 p \<Longrightarrow> fst (read_velocity_file c p w) = fst (read_velocity_file c p w2)"
  by (simp add: read_velocity_file_def np_load_def split: prod.splits sum.splits)

lemma read_amplitude_file_InrD:
  "read_amplitude_file c p w = (Inr a, w1) \<Longrightarrow>
     w1 = emit (ENpLoad p) w \<and> fst (read_amplitude_file c p w) = Inr a"
  using read_amplitude_file_split [of c p w] by simp

lemma read_velocity_file_InrD:
  "read_velocity_file c p w = (Inr a, w1) \<Longrightarrow>
     w1 = emit (ENpLoad p) w \<and> fst (read_velocity_file c p w) = Inr a"
  using read_velocity_file_split [of c p w] by simp

lemma torch_save_InrD:
  "torch_save p obj w = (Inr u, w1) \<Longrightarrow>
     w1 = emit (ETorchSave p) (w\<lparr>fs := (fs w)(p \<mapsto> File (Pt obj))\<rparr>)"
  by (auto simp: torch_save_def split: if_splits)

lemma print_InrD: "print s w = (Inr u, w1) \<Longrightarrow> w1 = emit (EPrint s) w"
  by (simp add: print_def)

lemma makedir_exist_ok_InrD:
  "makedir_exist_ok x p w = (Inr u, w1) \<Longrightarrow> trace w1 = trace w @ [EMakedirs p]"
  by (auto simp: makedir_exist_ok_def split: prod.splits option.splits if_splits)

lemma download_files_InrD:
  "download_files x raw us w = (Inr u, w1) \<Longrightarrow>
     trace w1 = trace w @ map (\<lambda>url. EFetch url raw (rpartition_tail url)) us"
proof (induction us arbitrary: w)
  case Nil
  then show ?case by simp
next
  case (Cons url rest)
  then show ?case
    by (auto simp: Let_def split: prod.splits option.splits)
qed

lemma raw_processed_distinct:
  "path_join (raw_folder r) (a # as) \<noteq> path_join (processed_folder r) (b # bs)"
  if "a \<noteq> CHR ''/''" "b \<noteq> CHR ''/''"
  using that by (simp add: path_join_def raw_folder_def processed_folder_def)

subsection \<open>One complete run of download\<close>

lemma download_run:
  assumes "\<not> check_exists r w" and "download x r w = (Inr u, w')"
  shows "\<exists>w0 a_train v_train a_0 a_1 a_2 v.
     fst (read_amplitude_file (to_float x) (path_join (raw_folder r) ''train_amplitudes.npy'') w0) = Inr a_train \<and>
     fst (read_velocity_file (to_float x) (path_join (raw_folder r) ''train_velocities.npy'') w0) = Inr v_train \<and>
     fst (read_amplitude_file (to_float x) (path_join (raw_folder r) ''test_amplitudes.npy'') w0) = Inr a_0 \<and>
     fst (read_amplitude_file (to_float x) (path_join (raw_folder r) ''test_amplitudes_noise_1.npy'') w0) = Inr a_1 \<and>
     fst (read_amplitude_file (to_float x) (path_join (raw_folder r) ''test_amplitudes_noise_2.npy'') w0) = Inr a_2 \<and>
     fst (read_velocity_file (to_float x) (path_join (raw_folder r) ''test_velocities.npy'') w0) = Inr v \<and>
     fs w' = (fs w0)
       (path_join (processed_folder r) training_file \<mapsto> File (Pt (a_train, v_train)),
        path_join (processed_folder r) test_file_noise_0 \<mapsto> File (Pt (a_0, v)),
        path_join (processed_folder r) test_file_noise_1 \<mapsto> File (Pt (a_1, v)),
        path_join (processed_folder r) test_file_noise_2 \<mapsto> File (Pt (a_2, v))) \<and>
     trace w' = trace w @ rebuild_events r"
proof -
  let ?c = "to_float x"
  let ?raw = "raw_folder r"
  let ?pf = "processed_folder r"
  from assms obtain w1 w2 w3 w4 w5 w6 w7 w8 w9 w10 w11 w12 w13 w14 w15 w16
      a_train v_train a_0 v_0 a_1 v_1 a_2 v_2 where
    s1: "makedir_exist_ok x ?raw w = (Inr (), w1)" and
    s2: "makedir_exist_ok x ?pf w1 = (Inr (), w2)" and
    s3: "download_files x ?raw urls w2 = (Inr (), w3)" and
    s4: "print ''Processing...'' w3 = (Inr (), w4)" and
    s5: "read_amplitude_file ?c (path_join ?raw ''train_amplitudes.npy'') w4 = (Inr a_train, w5)" and
    s6: "read_velocity_file ?c (path_join ?raw ''train_velocities.npy'') w5 = (Inr v_train, w6)" and
    s7: "read_amplitude_file ?c (path_join ?raw ''test_amplitudes.npy'') w6 = (Inr a_0, w7)" and
    s8: "read_velocity_file ?c (path_join ?raw ''test_velocities.npy'') w7 = (Inr v_0, w8)" and
    s9: "read_amplitude_file ?c (path_join ?raw ''test_amplitudes_noise_1.npy'') w8 = (Inr a_1, w9)" and
    s10: "read_velocity_file ?c (path_join ?raw ''test_velocities.npy'') w9 = (Inr v_1, w10)" and
    s11: "read_amplitude_file ?c (path_join ?raw ''test_amplitudes_noise_2.npy'') w10 = (Inr a_2, w11)" and
    s12: "read_velocity_file ?c (path_join ?raw ''test_velocities.npy'') w11 = (Inr v_2, w12)" and
    s13: "torch_save (path_join ?pf training_file) (a_train, v_train) w12 = (Inr (), w13)" and
    s14: "torch_save (path_join ?pf test_file_noise_0) (a_0, v_0) w13 = (Inr (), w14)" and
    s15: "torch_save (path_join ?pf test_file_noise_1) (a_1, v_1) w14 = (Inr (), w15)" and
    s16: "torch_save (path_join ?pf test_file_noise_2) (a_2, v_2) w15 = (Inr (), w16)" and
    s17: "print ''Done!'' w16 = (Inr u, w')"
    by (auto simp: download_def bind_io_Inr_iff)
  note r5 = read_amplitude_file_InrD [OF s5] and r6 = read_velocity_file_InrD [OF s6]
    and r7 = read_amplitude_file_InrD [OF s7] and r8 = read_velocity_file_InrD [OF s8]
    and r9 = read_amplitude_file_InrD [OF s9] and r10 = read_velocity_file_InrD [OF s10]
    and r11 = read_amplitude_file_InrD [OF s11] and r12 = read_velocity_file_InrD [OF s12]
  have w4: "w4 = emit (EPrint ''Processing...'') w3"
    using print_InrD [OF s4] .
  have fs_eq: "fs w4 = fs w3" "fs w5 = fs w3" "fs w6 = fs w3" "fs w7 = fs w3" "fs w8 = fs w3"
    "fs w9 = fs w3" "fs w10 = fs w3" "fs w11 = fs w3" "fs w12 = fs w3"
    using w4 r5 r6 r7 r8 r9 r10 r11 r12 by simp_all
  have a_train: "fst (read_amplitude_file ?c (path_join ?raw ''train_amplitudes.npy'') w3) = Inr a_train"
    using r5 fst_read_amplitude_file_cong [of w4 _ w3] fs_eq by simp
  have v_train: "fst (read_velocity_file ?c (path_join ?raw ''train_velocities.npy'') w3) = Inr v_train"
    using r6 fst_read_velocity_file_cong [of w5 _ w3] fs_eq by simp
  have a_0: "fst (read_amplitude_file ?c (path_join ?raw ''test_amplitudes.npy'') w3) = Inr a_0"
    using r7 fst_read_amplitude_file_cong [of w6 _ w3] fs_eq by simp
  have v_0: "fst (read_velocity_file ?c (path_join ?raw ''test_velocities.npy'') w3) = Inr v_0"
    using r8 fst_read_velocity_file_cong [of w7 _ w3] fs_eq by simp
  have a_1: "fst (read_amplitude_file ?c (path_join ?raw ''test_amplitudes_noise_1.npy'') w3) = Inr a_1"
    using r9 fst_read_amplitude_file_cong [of w8 _ w3] fs_eq by simp
  have v_1: "fst (read_velocity_file ?c (path_join ?raw ''test_velocities.npy'') w3) = Inr v_1"
    using r10 fst_read_velocity_file_cong [of w9 _ w3] fs_eq by simp
  have a_2: "fst (read_amplitude_file ?c (path_join ?raw ''test_amplitudes_noise_2.npy'') w3) = Inr a_2"
    using r11 fst_read_amplitude_file_cong [of w10 _ w3] fs_eq by simp
  have v_2: "fst (read_velocity_file ?c (path_join ?raw ''test_velocities.npy'') w3) = Inr v_2"
    using r12 fst_read_velocity_file_cong [of w11 _ w3] fs_eq by simp
  have same: "v_1 = v_0" "v_2 = v_0"
    using v_0 v_1 v_2 by simp_all
  have tr3: "trace w3 = trace w @ [EMakedirs ?raw, EMakedirs ?pf] @
      map (\<lambda>url. EFetch url ?raw (rpartition_tail url)) urls"
    using makedir_exist_ok_InrD [OF s1] makedir_exist_ok_InrD [OF s2] download_files_InrD [OF s3]
    by simp
  have tr12: "trace w12 = trace w3 @
     [EPrint ''Processing...'',
      ENpLoad (path_join ?raw ''train_amplitudes.npy''),
      ENpLoad (path_join ?raw ''train_velocities.npy''),
      ENpLoad (path_join ?raw ''test_amplitudes.npy''),
      ENpLoad (path_join ?raw ''test_velocities.npy''),
      ENpLoad (path_join ?raw ''test_amplitudes_noise_1.npy''),
      ENpLoad (path_join ?raw ''test_velocities.npy''),
      ENpLoad (path_join ?raw ''test_amplitudes_noise_2.npy''),
      ENpLoad (path_join ?raw ''test_velocities.npy'')]"
    using w4 r5 r6 r7 r8 r9 r10 r11 r12 by simp
  have w': "w' = emit (EPrint ''Done!'') w16"
    using print_InrD [OF s17] .
  have fs': "fs w' = (fs w3)
       (path_join ?pf training_file \<mapsto> File (Pt (a_train, v_train)),
        path_join ?pf test_file_noise_0 \<mapsto> File (Pt (a_0, v_0)),
        path_join ?pf test_file_noise_1 \<mapsto> File (Pt (a_1, v_0)),
        path_join ?pf test_file_noise_2 \<mapsto> File (Pt (a_2, v_0)))"
    using w' torch_save_InrD [OF s13] torch_save_InrD [OF s14] torch_save_InrD [OF s15]
      torch_save_InrD [OF s16] fs_eq same by simp
  have tr': "trace w' = trace w @ rebuild_events r"
    using w' torch_save_InrD [OF s13] torch_save_InrD [OF s14] torch_save_InrD [OF s15]
      torch_save_InrD [OF s16] tr12 tr3 by (simp add: rebuild_events_def)
  from a_train v_train a_0 a_1 a_2 v_0 fs' tr' show ?thesis
    by blast
qed

lemma download_cached: "check_exists r w \<Longrightarrow> download x r w = (Inr (), w)"
  by (simp add: download_def)

lemma download_success_exists:
  assumes "download x r w = (Inr u, w')"
  shows "check_exists r w'"
proof (cases "check_exists r w")
  case True
  with assms show ?thesis by (simp add: download_def)
next
  case False
  from download_run [OF False assms] show ?thesis
    by (auto simp: check_exists_def exists_def)
qed

lemma processed_paths_distinct:
  "path_join (processed_folder r) training_file \<noteq> path_join (processed_folder r) test_file_noise_0"
  "path_join (processed_folder r) training_file \<noteq> path_join (processed_folder r) test_file_noise_1"
  "path_join (processed_folder r) training_file \<noteq> path_join (processed_folder r) test_file_noise_2"
  "path_join (processed_folder r) test_file_noise_0 \<noteq> path_join (processed_folder r) test_file_noise_1"
  "path_join (processed_folder r) test_file_noise_0 \<noteq> path_join (processed_folder r) test_file_noise_2"
  "path_join (processed_folder r) test_file_noise_1 \<noteq> path_join (processed_folder r) test_file_noise_2"
  by (simp_all add: path_join_def training_file_def test_file_noise_0_def test_file_noise_1_def
      test_file_noise_2_def)

lemma fst_torch_load: 
  "fs w p = Some (File (Pt obj)) \<Longrightarrow> fst (torch_load p w) = Inr obj"
  by (simp add: torch_load_def)

lemma download_rebuilds:
  assumes "\<not> check_exists r w" and "download x r w = (Inr (), w')"
  shows "(\<exists>a_train v_train a_0 a_1 a_2 v.
     fst (read_amplitude_file (to_float x)
       (path_join (raw_folder r) ''train_amplitudes.npy'') w') = Inr a_train \<and>
     fst (read_velocity_file (to_float x)
       (path_join (raw_folder r) ''train_velocities.npy'') w') = Inr v_train \<and>
     fst (read_amplitude_file (to_float x)
       (path_join (raw_folder r) ''test_amplitudes.npy'') w') = Inr a_0 \<and>
     fst (read_amplitude_file (to_float x)
       (path_join (raw_folder r) ''test_amplitudes_noise_1.npy'') w') = Inr a_1 \<and>
     fst (read_amplitude_file (to_float x)
       (path_join (raw_folder r) ''test_amplitudes_noise_2.npy'') w') = Inr a_2 \<and>
     fst (read_velocity_file (to_float x)
       (path_join (raw_folder r) ''test_velocities.npy'') w') = Inr v \<and>
     fs w' (path_join (processed_folder r) training_file) = Some (File (Pt (a_train, v_train))) \<and>
     fs w' (path_join (processed_folder r) test_file_noise_0) = Some (File (Pt (a_0, v))) \<and>
     fs w' (path_join (processed_folder r) test_file_noise_1) = Some (File (Pt (a_1, v))) \<and>
     fs w' (path_join (processed_folder r) test_file_noise_2) = Some (File (Pt (a_2, v))))"
proof -
  from download_run [OF assms] obtain w0 a_train v_train a_0 a_1 a_2 v where
    a_train: "fst (read_amplitude_file (to_float x) (path_join (raw_folder r) ''train_amplitudes.npy'') w0) = Inr a_train" and
    v_train: "fst (read_velocity_file (to_float x) (path_join (raw_folder r) ''train_velocities.npy'') w0) = Inr v_train" and
    a_0: "fst (read_amplitude_file (to_float x) (path_join (raw_folder r) ''test_amplitudes.npy'') w0) = Inr a_0" and
    a_1: "fst (read_amplitude_file (to_float x) (path_join (raw_folder r) ''test_amplitudes_noise_1.npy'') w0) = Inr a_1" and
    a_2: "fst (read_amplitude_file (to_float x) (path_join (raw_folder r) ''test_amplitudes_noise_2.npy'') w0) = Inr a_2" and
    v: "fst (read_velocity_file (to_float x) (path_join (raw_folder r) ''test_velocities.npy'') w0) = Inr v" and
    fs': "fs w' = (fs w0)
       (path_join (processed_folder r) training_file \<mapsto> File (Pt (a_train, v_train)),
        path_join (processed_folder r) test_file_noise_0 \<mapsto> File (Pt (a_0, v)),
        path_join (processed_folder r) test_file_noise_1 \<mapsto> File (Pt (a_1, v)),
        path_join (processed_folder r) test_file_noise_2 \<mapsto> File (Pt (a_2, v)))"
    by blast
  have raw: "fs w' (path_join (raw_folder r) (c # cs)) = fs w0 (path_join (raw_folder r) (c # cs))"
    if "c \<noteq> CHR ''/''" for c cs
    using that fs' raw_processed_distinct [of c _ r]
    by (simp add: training_file_def test_file_noise_0_def test_file_noise_1_def test_file_noise_2_def)
  have "fst (read_amplitude_file (to_float x) (path_join (raw_folder r) ''train_amplitudes.npy'') w') = Inr a_train"
    using a_train fst_read_amplitude_file_cong [OF raw] by simp
  moreover have "fst (read_velocity_file (to_float x) (path_join (raw_folder r) ''train_velocities.npy'') w') = Inr v_train"
    using v_train fst_read_velocity_file_cong [OF raw] by simp
  moreover have "fst (read_amplitude_file (to_float x) (path_join (raw_folder r) ''test_amplitudes.npy'') w') = Inr a_0"
    using a_0 fst_read_amplitude_file_cong [OF raw] by simp
  moreover have "fst (read_amplitude_file (to_float x) (path_join (raw_folder r) ''test_amplitudes_noise_1.npy'') w') = Inr a_1"
    using a_1 fst_read_amplitude_file_cong [OF raw] by simp
  moreover have "fst (read_amplitude_file (to_float x) (path_join (raw_folder r) ''test_amplitudes_noise_2.npy'') w') = Inr a_2"
    using a_2 fst_read_amplitude_file_cong [OF raw] by simp
  moreover have "fst (read_velocity_file (to_float x) (path_join (raw_folder r) ''test_velocities.npy'') w') = Inr v"
    using v fst_read_velocity_file_cong [OF raw] by simp
  moreover have "fs w' (path_join (processed_folder r) training_file) = Some (File (Pt (a_train, v_train)))"
    using fs' processed_paths_distinct [of r] by simp
  moreover have "fs w' (path_join (processed_folder r) test_file_noise_0) = Some (File (Pt (a_0, v)))"
    using fs' processed_paths_distinct [of r] by simp
  moreover have "fs w' (path_join (processed_folder r) test_file_noise_1) = Some (File (Pt (a_1, v)))"
    using fs' processed_paths_distinct [of r] by simp
  moreover have "fs w' (path_join (processed_folder r) test_file_noise_2) = Some (File (Pt (a_2, v)))"
    using fs' by simp
  ultimately show ?thesis by blast
qed

subsection \<open>Ranks other than three\<close>

lemma amplitude_tensor_rank_ge3:
  assumes "3 \<le> length (a_shape d)"
  shows "amplitude_tensor cast d =
      (if prod_list (drop 3 (a_shape d)) = 1 \<or> prod_list (take 3 (a_shape d)) = 0
       then Inr \<lparr>shape = [a_shape d ! 0, 1, a_shape d ! 1, a_shape d ! 2], elems = map cast (a_data d)\<rparr>
       else Inl (RuntimeError ''shape is invalid for input size''))"
proof -
  from assms obtain n h wd r where s: "a_shape d = n # h # wd # r"
    by (metis Suc_le_length_iff numeral_3_eq_3)
  have "n * (h * wd) = n * (h * (wd * prod_list r)) \<longleftrightarrow> prod_list r = 1 \<or> n * (h * wd) = 0"
    by (metis mult.assoc mult_cancel1 mult_eq_0_iff nat_mult_1_right)
  then show ?thesis
    using s by (simp add: amplitude_tensor_def shape_at_def view_def numel_def from_numpy_def
        float_def numeral_3_eq_3)
qed

subsection \<open>The sample run\<close>

text \<open>
  A rebuild from the empty world with the sample fetcher returns: the two directories
  are made, the six files fetched, the eight loads and four saves succeed.
\<close>

lemma sample_folders:
  "raw_folder ''data'' = ''data/SNIST/raw''"
  "processed_folder ''data'' = ''data/SNIST/processed''"
  by (simp_all add: raw_folder_def processed_folder_def path_join_def)

lemma sample_processed_paths:
  "path_join ''data/SNIST/processed'' training_file = ''data/SNIST/processed/training.pt''"
  "path_join ''data/SNIST/processed'' test_file_noise_0 = ''data/SNIST/processed/test_noise_0.pt''"
  "path_join ''data/SNIST/processed'' test_file_noise_1 = ''data/SNIST/processed/test_noise_1.pt''"
  "path_join ''data/SNIST/processed'' test_file_noise_2 = ''data/SNIST/processed/test_noise_2.pt''"
  by (simp_all add: path_join_def training_file_def test_file_noise_0_def test_file_noise_1_def
      test_file_noise_2_def)

lemma sample_raw_paths:
  "path_join ''data/SNIST/raw'' ''train_amplitudes.npy'' = ''data/SNIST/raw/train_amplitudes.npy''"
  "path_join ''data/SNIST/raw'' ''train_velocities.npy'' = ''data/SNIST/raw/train_velocities.npy''"
  "path_join ''data/SNIST/raw'' ''test_amplitudes.npy'' = ''data/SNIST/raw/test_amplitudes.npy''"
  "path_join ''data/SNIST/raw'' ''test_velocities.npy'' = ''data/SNIST/raw/test_velocities.npy''"
  "path_join ''data/SNIST/raw'' ''test_amplitudes_noise_1.npy'' = ''data/SNIST/raw/test_amplitudes_noise_1.npy''"
  "path_join ''data/SNIST/raw'' ''test_amplitudes_noise_2.npy'' = ''data/SNIST/raw/test_amplitudes_noise_2.npy''"
  by (simp_all add: path_join_def)

lemma sample_dirnames:
  "dirname ''data/SNIST/processed/training.pt'' = ''data/SNIST/processed''"
  "dirname ''data/SNIST/processed/test_noise_0.pt'' = ''data/SNIST/processed''"
  "dirname ''data/SNIST/processed/test_noise_1.pt'' = ''data/SNIST/processed''"
  "dirname ''data/SNIST/processed/test_noise_2.pt'' = ''data/SNIST/processed''"
  by (simp_all add: dirname_def)

lemma url_filenames:
  "map rpartition_tail urls =
     [''train_amplitudes.npy'', ''train_velocities.npy'', ''test_amplitudes.npy'',
      ''test_velocities.npy'', ''test_amplitudes_noise_1.npy'', ''test_amplitudes_noise_2.npy'']"
  by (simp add: urls_def rpartition_tail_def)

lemma empty_world_absent: "\<not> check_exists ''data'' empty_world"
  by (simp add: check_exists_def exists_def empty_world_def)

lemma cached_world_present: "check_exists ''data'' cached_world"
  by (simp add: check_exists_def exists_def cached_world_def sample_folders sample_processed_paths)

lemma sample_makedirs_raw:
  "makedir_exist_ok sample_ext ''data/SNIST/raw'' empty_world =
     (Inr (), \<lparr>fs = [''data/SNIST/raw'' \<mapsto> Dir], trace = [EMakedirs ''data/SNIST/raw'']\<rparr>)"
  by (simp add: makedir_exist_ok_def sample_ext_def empty_world_def emit_def)

lemma sample_makedirs_processed:
  "makedir_exist_ok sample_ext ''data/SNIST/processed''
     \<lparr>fs = [''data/SNIST/raw'' \<mapsto> Dir], trace = [EMakedirs ''data/SNIST/raw'']\<rparr> =
     (Inr (), made_world)"
  by (simp add: makedir_exist_ok_def sample_ext_def made_world_def emit_def)

lemma sample_fetches:
  "download_files sample_ext ''data/SNIST/raw'' urls made_world = (Inr (), fetched_world)"
  by (simp add: urls_def Let_def sample_ext_def sample_remote_def rpartition_tail_def path_join_def
      made_world_def fetched_world_def emit_def)

lemma read_amplitude_file_rank3:
  "fs w path = Some (File (Npy d)) \<Longrightarrow> a_shape d = [n, h, wd] \<Longrightarrow>
   read_amplitude_file cast path w =
     (Inr \<lparr>shape = [n, 1, h, wd], elems = map cast (a_data d)\<rparr>, emit (ENpLoad path) w)"
  by (simp add: read_amplitude_file_def np_load_def amplitude_tensor_def shape_at_def view_def
      from_numpy_def numel_def float_def)

lemma read_velocity_file_Npy:
  "fs w path = Some (File (Npy d)) \<Longrightarrow>
   read_velocity_file cast path w =
     (Inr \<lparr>shape = a_shape d, elems = map cast (a_data d)\<rparr>, emit (ENpLoad path) w)"
  by (simp add: read_velocity_file_def np_load_def from_numpy_def float_def)

lemma torch_save_ok:
  "dirname path \<noteq> [] \<Longrightarrow> fs w (dirname path) = Some Dir \<Longrightarrow> fs w path \<noteq> Some Dir \<Longrightarrow>
   torch_save path obj w =
     (Inr (), emit (ETorchSave path) (w\<lparr>fs := (fs w)(path \<mapsto> File (Pt obj))\<rparr>))"
  by (simp add: torch_save_def)

lemma sample_to_float: "to_float sample_ext = real_of_int"
  by (simp add: sample_ext_def)

lemma fetched_world_files:
  "fs fetched_world ''data/SNIST/raw/train_amplitudes.npy'' =
     Some (File (Npy \<lparr>a_shape = [2, 1, 2], a_data = [1, 2, 3, 4]\<rparr>))"
  "fs fetched_world ''data/SNIST/raw/train_velocities.npy'' =
     Some (File (Npy \<lparr>a_shape = [2], a_data = [5, 6]\<rparr>))"
  "fs fetched_world ''data/SNIST/raw/test_amplitudes.npy'' =
     Some (File (Npy \<lparr>a_shape = [1, 1, 2], a_data = [7, 8]\<rparr>))"
  "fs fetched_world ''data/SNIST/raw/test_velocities.npy'' =
     Some (File (Npy \<lparr>a_shape = [1], a_data = [9]\<rparr>))"
  "fs fetched_world ''data/SNIST/raw/test_amplitudes_noise_1.npy'' =
     Some (File (Npy \<lparr>a_shape = [1, 1, 2], a_data = [10, 11]\<rparr>))"
  "fs fetched_world ''data/SNIST/raw/test_amplitudes_noise_2.npy'' =
     Some (File (Npy \<lparr>a_shape = [1, 1, 2], a_data = [12, 13]\<rparr>))"
  "fs fetched_world ''data/SNIST/processed'' = Some Dir"
  "fs fetched_world ''data/SNIST/processed/training.pt'' = None"
  "fs fetched_world ''data/SNIST/processed/test_noise_0.pt'' = None"
  "fs fetched_world ''data/SNIST/processed/test_noise_1.pt'' = None"
  "fs fetched_world ''data/SNIST/processed/test_noise_2.pt'' = None"
  by (simp_all add: fetched_world_def)

lemma sample_download_ok: "fst (download sample_ext ''data'' empty_world) = Inr ()"
proof -
  let ?c = "real_of_int"
  define w4 where "w4 = emit (EPrint ''Processing...'') fetched_world"
  define w5 where "w5 = emit (ENpLoad ''data/SNIST/raw/train_amplitudes.npy'') w4"
  define w6 where "w6 = emit (ENpLoad ''data/SNIST/raw/train_velocities.npy'') w5"
  define w7 where "w7 = emit (ENpLoad ''data/SNIST/raw/test_amplitudes.npy'') w6"
  define w8 where "w8 = emit (ENpLoad ''data/SNIST/raw/test_velocities.npy'') w7"
  define w9 where "w9 = emit (ENpLoad ''data/SNIST/raw/test_amplitudes_noise_1.npy'') w8"
  define w10 where "w10 = emit (ENpLoad ''data/SNIST/raw/test_velocities.npy'') w9"
  define w11 where "w11 = emit (ENpLoad ''data/SNIST/raw/test_amplitudes_noise_2.npy'') w10"
  define w12 where "w12 = emit (ENpLoad ''data/SNIST/raw/test_velocities.npy'') w11"
  define a_train :: "real tensor" where "a_train = \<lparr>shape = [2, 1, 1, 2], elems = [1, 2, 3, 4]\<rparr>"
  define v_train :: "real tensor" where "v_train = \<lparr>shape = [2], elems = [5, 6]\<rparr>"
  define a_0 :: "real tensor" where "a_0 = \<lparr>shape = [1, 1, 1, 2], elems = [7, 8]\<rparr>"
  define a_1 :: "real tensor" where "a_1 = \<lparr>shape = [1, 1, 1, 2], elems = [10, 11]\<rparr>"
  define a_2 :: "real tensor" where "a_2 = \<lparr>shape = [1, 1, 1, 2], elems = [12, 13]\<rparr>"
  define v :: "real tensor" where "v = \<lparr>shape = [1], elems = [9]\<rparr>"
  define w13 where "w13 = emit (ETorchSave ''data/SNIST/processed/training.pt'')
     (w12\<lparr>fs := (fs w12)(''data/SNIST/processed/training.pt'' \<mapsto> File (Pt (a_train, v_train)))\<rparr>)"
  define w14 where "w14 = emit (ETorchSave ''data/SNIST/processed/test_noise_0.pt'')
     (w13\<lparr>fs := (fs w13)(''data/SNIST/processed/test_noise_0.pt'' \<mapsto> File (Pt (a_0, v)))\<rparr>)"
  define w15 where "w15 = emit (ETorchSave ''data/SNIST/processed/test_noise_1.pt'')
     (w14\<lparr>fs := (fs w14)(''data/SNIST/processed/test_noise_1.pt'' \<mapsto> File (Pt (a_1, v)))\<rparr>)"
  define w16 where "w16 = emit (ETorchSave ''data/SNIST/processed/test_noise_2.pt'')
     (w15\<lparr>fs := (fs w15)(''data/SNIST/processed/test_noise_2.pt'' \<mapsto> File (Pt (a_2, v)))\<rparr>)"
  have fs12: "fs w4 = fs fetched_world" "fs w5 = fs fetched_world" "fs w6 = fs fetched_world"
    "fs w7 = fs fetched_world" "fs w8 = fs fetched_world" "fs w9 = fs fetched_world"
    "fs w10 = fs fetched_world" "fs w11 = fs fetched_world" "fs w12 = fs fetched_world"
    by (simp_all add: w4_def w5_def w6_def w7_def w8_def w9_def w10_def w11_def w12_def)
  have s4: "print ''Processing...'' fetched_world = (Inr (), w4)"
    by (simp add: print_def w4_def)
  have s5: "read_amplitude_file ?c ''data/SNIST/raw/train_amplitudes.npy'' w4 = (Inr a_train, w5)"
    using read_amplitude_file_rank3 [of w4 "''data/SNIST/raw/train_amplitudes.npy''" _ 2 1 2 ?c]
    by (simp add: fs12 fetched_world_files w5_def a_train_def)
  have s6: "read_velocity_file ?c ''data/SNIST/raw/train_velocities.npy'' w5 = (Inr v_train, w6)"
    using read_velocity_file_Npy [of w5 "''data/SNIST/raw/train_velocities.npy''" _ ?c]
    by (simp add: fs12 fetched_world_files w6_def v_train_def)
  have s7: "read_amplitude_file ?c ''data/SNIST/raw/test_amplitudes.npy'' w6 = (Inr a_0, w7)"
    using read_amplitude_file_rank3 [of w6 "''data/SNIST/raw/test_amplitudes.npy''" _ 1 1 2 ?c]
    by (simp add: fs12 fetched_world_files w7_def a_0_def)
  have s8: "read_velocity_file ?c ''data/SNIST/raw/test_velocities.npy'' w7 = (Inr v, w8)"
    using read_velocity_file_Npy [of w7 "''data/SNIST/raw/test_velocities.npy''" _ ?c]
    by (simp add: fs12 fetched_world_files w8_def v_def)
  have s9: "read_amplitude_file ?c ''data/SNIST/raw/test_amplitudes_noise_1.npy'' w8 = (Inr a_1, w9)"
    using read_amplitude_file_rank3 [of w8 "''data/SNIST/raw/test_amplitudes_noise_1.npy''" _ 1 1 2 ?c]
    by (simp add: fs12 fetched_world_files w9_def a_1_def)
  have s10: "read_velocity_file ?c ''data/SNIST/raw/test_velocities.npy'' w9 = (Inr v, w10)"
    using read_velocity_file_Npy [of w9 "''data/SNIST/raw/test_velocities.npy''" _ ?c]
    by (simp add: fs12 fetched_world_files w10_def v_def)
  have s11: "read_amplitude_file ?c ''data/SNIST/raw/test_amplitudes_noise_2.npy'' w10 = (Inr a_2, w11)"
    using read_amplitude_file_rank3 [of w10 "''data/SNIST/raw/test_amplitudes_noise_2.npy''" _ 1 1 2 ?c]
    by (simp add: fs12 fetched_world_files w11_def a_2_def)
  have s12: "read_velocity_file ?c ''data/SNIST/raw/test_velocities.npy'' w11 = (Inr v, w12)"
    using read_velocity_file_Npy [of w11 "''data/SNIST/raw/test_velocities.npy''" _ ?c]
    by (simp add: fs12 fetched_world_files w12_def v_def)
  have s13: "torch_save ''data/SNIST/processed/training.pt'' (a_train, v_train) w12 = (Inr (), w13)"
    unfolding w13_def
    by (rule torch_save_ok) (simp_all add: sample_dirnames fs12 fetched_world_files)
  have s14: "torch_save ''data/SNIST/processed/test_noise_0.pt'' (a_0, v) w13 = (Inr (), w14)"
    unfolding w14_def
    by (rule torch_save_ok) (simp_all add: sample_dirnames w13_def fs12 fetched_world_files)
  have s15: "torch_save ''data/SNIST/processed/test_noise_1.pt'' (a_1, v) w14 = (Inr (), w15)"
    unfolding w15_def
    by (rule torch_save_ok) (simp_all add: sample_dirnames w14_def w13_def fs12 fetched_world_files)
  have s16: "torch_save ''data/SNIST/processed/test_noise_2.pt'' (a_2, v) w15 = (Inr (), w16)"
    unfolding w16_def
    by (rule torch_save_ok)
      (simp_all add: sample_dirnames w15_def w14_def w13_def fs12 fetched_world_files)
  have "download sample_ext ''data'' empty_world = print ''Done!'' w16"
    by (simp add: download_def empty_world_absent sample_folders sample_raw_paths
        sample_processed_paths sample_to_float bind_io_def
        sample_makedirs_raw sample_makedirs_processed sample_fetches
        s4 s5 s6 s7 s8 s9 s10 s11 s12 s13 s14 s15 s16)
  then show ?thesis
    by (simp add: print_def)
qed

lemma sample_expanduser: "expanduser sample_ext p = p"
  by (simp add: sample_ext_def)

lemma sample_download_run:
  "download sample_ext ''data'' empty_world = (Inr (), snd (download sample_ext ''data'' empty_world))"
  using sample_download_ok by (simp add: prod_eq_iff)

lemma sample_init:
  "init sample_ext ''data'' False 1 None None False cached_world =
     (Inr loaded_ds, emit (ETorchLoad ''data/SNIST/processed/test_noise_1.pt'') cached_world)"
  using cached_world_present
  by (simp add: init_def sample_expanduser data_file_of_def sample_folders sample_processed_paths
      torch_load_def loaded_ds_def cached_world_def)

section \<open>The claims\<close>

text \<open>
  C1. For every source amplitude array of shape [N, H, W], N = 0 included, the amplitude
  conversion returns the tensor of shape [N, 1, H, W] whose elements are the cast source
  elements in their order; the only effect is the load of the file.
\<close>

theorem read_amplitude_file_shape:
  assumes "fs w path = Some (File (Npy d))" and "a_shape d = [n, h, wd]"
  shows "read_amplitude_file cast path w =
           (Inr \<lparr>shape = [n, 1, h, wd], elems = map cast (a_data d)\<rparr>, emit (ENpLoad path) w)"
  using assms
  by (simp add: read_amplitude_file_def np_load_def amplitude_tensor_def shape_at_def view_def
      from_numpy_def numel_def float_def)

theorem read_amplitude_file_shape_witness:
  "read_amplitude_file real_of_int ''amp.npy'' converter_world =
     (Inr \<lparr>shape = [2, 1, 1, 2], elems = [1, 2, 3, 4]\<rparr>, emit (ENpLoad ''amp.npy'') converter_world) \<and>
   read_amplitude_file real_of_int ''none.npy'' converter_world =
     (Inr \<lparr>shape = [0, 1, 2, 3], elems = []\<rparr>, emit (ENpLoad ''none.npy'') converter_world)"
  using read_amplitude_file_shape [of converter_world "''amp.npy''" _ 2 1 2 real_of_int]
    read_amplitude_file_shape [of converter_world "''none.npy''" _ 0 2 3 real_of_int]
  by (simp add: converter_world_def)

text \<open>
  C2, as amended. For a dataset whose feature tensor has leading size N, \<^verbatim>\<open>len\<close> returns
  N. If the target tensor has leading size N too, then for every index i with
  -N \<le> i < N (that fits 64 bits) both tensors are indexed at position i mod N (a
  negative index counts from the end) and the item is what the transforms make of these
  two rows. For every index i < -N and every index i \<ge> N that fits a signed 64-bit
  integer the read raises IndexError; for every index that does not fit one it raises
  ValueError.
\<close>

theorem getitem_index_range:
  assumes "shape (data self) = n # ds"
  shows "len self = Inr n \<and>
    (shape (targets self) = n # ts \<and> fits_int64 i \<and> - int n \<le> i \<and> i < int n \<longrightarrow>
       getitem self i =
         (case apply_opt (transform self) (row (data self) (nat (i mod int n))) of
            Inl e \<Rightarrow> Inl e
          | Inr a \<Rightarrow>
              (case apply_opt (target_transform self) (row (targets self) (nat (i mod int n))) of
                 Inl e \<Rightarrow> Inl e
               | Inr b \<Rightarrow> Inr (a, b)))) \<and>
    (fits_int64 i \<and> (i < - int n \<or> int n \<le> i) \<longrightarrow> getitem self i = Inl IndexError) \<and>
    (\<not> fits_int64 i \<longrightarrow> getitem self i = Inl ValueError)"
proof (intro conjI impI)
  show "len self = Inr n"
    using assms by (simp add: len_def)
next
  assume a: "shape (targets self) = n # ts \<and> fits_int64 i \<and> - int n \<le> i \<and> i < int n"
  then have i: "- int n \<le> i \<and> i < int n" and f: "fits_int64 i"
    and t: "shape (targets self) = n # ts"
    by simp_all
  have j: "(if i < 0 then i + int n else i) = i mod int n"
  proof (cases "i < 0")
    case True
    with i have "(i + int n) mod int n = i + int n"
      by (intro mod_pos_pos_trivial) simp_all
    then have "i mod int n = i + int n"
      by simp
    with True show ?thesis by simp
  next
    case False
    with i have "i mod int n = i"
      by (intro mod_pos_pos_trivial) simp_all
    with False show ?thesis by simp
  qed
  have "0 \<le> i mod int n \<and> i mod int n < int n"
    using i by auto
  then have "tensor_index (data self) i = Inr (row (data self) (nat (i mod int n)))"
    "tensor_index (targets self) i = Inr (row (targets self) (nat (i mod int n)))"
    using assms t f j by (simp_all add: tensor_index_def Let_def)
  then show "getitem self i =
         (case apply_opt (transform self) (row (data self) (nat (i mod int n))) of
            Inl e \<Rightarrow> Inl e
          | Inr a \<Rightarrow>
              (case apply_opt (target_transform self) (row (targets self) (nat (i mod int n))) of
                 Inl e \<Rightarrow> Inl e
               | Inr b \<Rightarrow> Inr (a, b)))"
    by (simp add: getitem_def)
next
  assume "fits_int64 i \<and> (i < - int n \<or> int n \<le> i)"
  then have "tensor_index (data self) i = Inl IndexError"
    using assms by (auto simp: tensor_index_def Let_def)
  then show "getitem self i = Inl IndexError"
    by (simp add: getitem_def)
next
  assume "\<not> fits_int64 i"
  then have "tensor_index (data self) i = Inl ValueError"
    by (simp add: tensor_index_def)
  then show "getitem self i = Inl ValueError"
    by (simp add: getitem_def)
qed

theorem getitem_index_range_witness:
  "len ds3 = Inr 3 \<and>
   getitem ds3 2 = Inr (Tensor \<lparr>shape = [1, 1, 2], elems = [5, 6]\<rparr>, Tensor \<lparr>shape = [], elems = [30]\<rparr>) \<and>
   getitem ds3 (- 3) = Inr (Tensor \<lparr>shape = [1, 1, 2], elems = [1, 2]\<rparr>, Tensor \<lparr>shape = [], elems = [10]\<rparr>) \<and>
   getitem ds3 3 = Inl IndexError \<and>
   getitem ds3 (- 4) = Inl IndexError \<and>
   getitem ds3 9223372036854775808 = Inl ValueError \<and>
   getitem ds3 (- 9223372036854775809) = Inl ValueError"
  using getitem_index_range [of ds3 3 "[1, 1, 2]" "[]" 2]
    getitem_index_range [of ds3 3 "[1, 1, 2]" "[]" "- 3"]
    getitem_index_range [of ds3 3 "[1, 1, 2]" "[]" 3]
    getitem_index_range [of ds3 3 "[1, 1, 2]" "[]" "- 4"]
    getitem_index_range [of ds3 3 "[1, 1, 2]" "[]" 9223372036854775808]
    getitem_index_range [of ds3 3 "[1, 1, 2]" "[]" "- 9223372036854775809"]
  by (simp add: ds3_def row_def apply_opt_def fits_int64_def)

theorem getitem_index_range_counterexample:
  "getitem ds3 (- 2) =
     Inr (Tensor \<lparr>shape = [1, 1, 2], elems = [3, 4]\<rparr>, Tensor \<lparr>shape = [], elems = [20]\<rparr>)"
  by (simp add: getitem_def ds3_def tensor_index_def fits_int64_def row_def apply_opt_def)

text \<open>
  C3. For every index at which both tensors can be read: with transform f and target
  transform g that return a and b on the feature row and the target row, the item is
  (a, b); with neither transform, the item is the pair of the two rows as stored.
\<close>

theorem getitem_transforms:
  assumes "tensor_index (data self) i = Inr img" and "tensor_index (targets self) i = Inr target"
  shows "(transform self = Some f \<and> target_transform self = Some g \<and> f img = Inr a \<and> g target = Inr b
            \<longrightarrow> getitem self i = Inr (a, b)) \<and>
         (transform self = None \<and> target_transform self = None
            \<longrightarrow> getitem self i = Inr (Tensor img, Tensor target))"
  using assms by (simp add: getitem_def apply_opt_def)

theorem getitem_transforms_witness:
  "getitem ds3_transformed 1 =
     Inr (Tensor \<lparr>shape = [1, 1, 2], elems = [- 3, - 4]\<rparr>, Obj 20) \<and>
   getitem ds3 1 =
     Inr (Tensor \<lparr>shape = [1, 1, 2], elems = [3, 4]\<rparr>, Tensor \<lparr>shape = [], elems = [20]\<rparr>)"
  using getitem_transforms [of ds3_transformed 1 "\<lparr>shape = [1, 1, 2], elems = [3, 4]\<rparr>"
      "\<lparr>shape = [], elems = [20]\<rparr>" negate total "Tensor \<lparr>shape = [1, 1, 2], elems = [- 3, - 4]\<rparr>" "Obj 20"]
    getitem_transforms [of ds3 1 "\<lparr>shape = [1, 1, 2], elems = [3, 4]\<rparr>"
      "\<lparr>shape = [], elems = [20]\<rparr>" negate total]
  by (simp add: ds3_transformed_def ds3_def tensor_index_def fits_int64_def row_def negate_def
      total_def)

text \<open>
  C4, as amended. For a source array whose rank is not 3: with fewer than three
  dimensions the conversion raises IndexError (reading the shape); with four or more it
  raises RuntimeError (from the view) unless the sizes after the third multiply to 1 or
  the first three multiply to 0, and in these two cases it returns the tensor of shape
  [s0, 1, s1, s2] with the cast elements.
\<close>

theorem read_amplitude_file_rank:
  assumes "fs w path = Some (File (Npy d))" and "length (a_shape d) \<noteq> 3"
  shows "fst (read_amplitude_file cast path w) =
     (if length (a_shape d) < 3 then Inl IndexError
      else if prod_list (drop 3 (a_shape d)) = 1 \<or> prod_list (take 3 (a_shape d)) = 0
           then Inr \<lparr>shape = [a_shape d ! 0, 1, a_shape d ! 1, a_shape d ! 2],
                     elems = map cast (a_data d)\<rparr>
           else Inl (RuntimeError ''shape is invalid for input size''))"
proof -
  have r: "fst (read_amplitude_file cast path w) = amplitude_tensor cast d"
    using assms(1) by (simp add: read_amplitude_file_def np_load_def)
  show ?thesis
  proof (cases "length (a_shape d) < 3")
    case True
    then have "amplitude_tensor cast d = Inl IndexError"
      by (auto simp: amplitude_tensor_def shape_at_def split: sum.splits)
    with True r show ?thesis by simp
  next
    case False
    then have "3 \<le> length (a_shape d)" by simp
    from amplitude_tensor_rank_ge3 [OF this, of cast] have
      "amplitude_tensor cast d =
        (if prod_list (drop 3 (a_shape d)) = 1 \<or> prod_list (take 3 (a_shape d)) = 0
         then Inr \<lparr>shape = [a_shape d ! 0, 1, a_shape d ! 1, a_shape d ! 2],
                   elems = map cast (a_data d)\<rparr>
         else Inl (RuntimeError ''shape is invalid for input size''))" .
    with False r show ?thesis by (simp only: if_False)
  qed
qed

theorem read_amplitude_file_rank_witness:
  "fst (read_amplitude_file real_of_int ''flat.npy'' converter_world) = Inl IndexError \<and>
   fst (read_amplitude_file real_of_int ''deep.npy'' converter_world) =
     Inl (RuntimeError ''shape is invalid for input size'')"
  using read_amplitude_file_rank [of converter_world "''flat.npy''" _ real_of_int]
    read_amplitude_file_rank [of converter_world "''deep.npy''" _ real_of_int]
  by (simp add: converter_world_def)

theorem read_amplitude_file_rank_counterexample:
  "fst (read_amplitude_file real_of_int ''thin.npy'' converter_world) =
     Inr \<lparr>shape = [1, 1, 2, 2], elems = [1, 2, 3, 4]\<rparr>"
  by (simp add: converter_world_def read_amplitude_file_def np_load_def amplitude_tensor_def
      shape_at_def view_def from_numpy_def numel_def float_def)

text \<open>
  C5. \<^verbatim>\<open>download\<close> is idempotent for the cache as a whole: with all four entries present
  it returns at once and leaves the world as it is (no fetch, no load, no save, no file
  changed); and after a call that returned, a second call is such a no-op.
\<close>

theorem download_idempotent:
  "(check_exists r w \<longrightarrow> download x r w = (Inr (), w)) \<and>
   (download x r w = (Inr (), w1) \<longrightarrow> download x r w1 = (Inr (), w1))"
  using download_cached download_success_exists by blast

theorem download_idempotent_witness:
  "check_exists ''data'' cached_world \<and>
   download sample_ext ''data'' cached_world = (Inr (), cached_world) \<and>
   fst (download sample_ext ''data'' empty_world) = Inr () \<and>
   download sample_ext ''data'' (snd (download sample_ext ''data'' empty_world)) =
     (Inr (), snd (download sample_ext ''data'' empty_world))"
  using download_idempotent [where r = "''data''" and w = cached_world and x = sample_ext]
    download_idempotent [where r = "''data''" and w = empty_world and x = sample_ext
      and ?w1.0 = "snd (download sample_ext ''data'' empty_world)"]
    cached_world_present sample_download_ok sample_download_run
  by simp

text \<open>
  C6. \<^verbatim>\<open>_check_exists\<close> holds exactly if there is a node at each of the four paths
  training.pt, test\_noise\_0.pt, test\_noise\_1.pt, test\_noise\_2.pt under
  root/SNIST/processed; and when it fails, a \<^verbatim>\<open>download\<close> that returns has run the whole
  rebuild: its trace is the six fetches, eight loads and four saves, and afterwards each
  of the four entries, whether it was there before or not, is a file holding the pair
  just converted from its raw amplitude and velocity files.
\<close>

theorem check_exists_all_four:
  "(check_exists r w \<longleftrightarrow>
      fs w (path_join (path_join (path_join r ''SNIST'') ''processed'') ''training.pt'') \<noteq> None \<and>
      fs w (path_join (path_join (path_join r ''SNIST'') ''processed'') ''test_noise_0.pt'') \<noteq> None \<and>
      fs w (path_join (path_join (path_join r ''SNIST'') ''processed'') ''test_noise_1.pt'') \<noteq> None \<and>
      fs w (path_join (path_join (path_join r ''SNIST'') ''processed'') ''test_noise_2.pt'') \<noteq> None) \<and>
   (\<not> check_exists r w \<and> download x r w = (Inr (), w') \<longrightarrow>
      trace w' = trace w @ rebuild_events r \<and>
      (\<exists>a_train v_train a_0 a_1 a_2 v.
        fst (read_amplitude_file (to_float x)
          (path_join (raw_folder r) ''train_amplitudes.npy'') w') = Inr a_train \<and>
        fst (read_velocity_file (to_float x)
          (path_join (raw_folder r) ''train_velocities.npy'') w') = Inr v_train \<and>
        fst (read_amplitude_file (to_float x)
          (path_join (raw_folder r) ''test_amplitudes.npy'') w') = Inr a_0 \<and>
        fst (read_amplitude_file (to_float x)
          (path_join (raw_folder r) ''test_amplitudes_noise_1.npy'') w') = Inr a_1 \<and>
        fst (read_amplitude_file (to_float x)
          (path_join (raw_folder r) ''test_amplitudes_noise_2.npy'') w') = Inr a_2 \<and>
        fst (read_velocity_file (to_float x)
          (path_join (raw_folder r) ''test_velocities.npy'') w') = Inr v \<and>
        fs w' (path_join (processed_folder r) training_file) = Some (File (Pt (a_train, v_train))) \<and>
        fs w' (path_join (processed_folder r) test_file_noise_0) = Some (File (Pt (a_0, v))) \<and>
        fs w' (path_join (processed_folder r) test_file_noise_1) = Some (File (Pt (a_1, v))) \<and>
        fs w' (path_join (processed_folder r) test_file_noise_2) = Some (File (Pt (a_2, v)))))"
proof (intro conjI impI)
  show "check_exists r w \<longleftrightarrow>
      fs w (path_join (path_join (path_join r ''SNIST'') ''processed'') ''training.pt'') \<noteq> None \<and>
      fs w (path_join (path_join (path_join r ''SNIST'') ''processed'') ''test_noise_0.pt'') \<noteq> None \<and>
      fs w (path_join (path_join (path_join r ''SNIST'') ''processed'') ''test_noise_1.pt'') \<noteq> None \<and>
      fs w (path_join (path_join (path_join r ''SNIST'') ''processed'') ''test_noise_2.pt'') \<noteq> None"
    by (simp add: check_exists_def exists_def processed_folder_def training_file_def
        test_file_noise_0_def test_file_noise_1_def test_file_noise_2_def)
next
  assume "\<not> check_exists r w \<and> download x r w = (Inr (), w')"
  then show "trace w' = trace w @ rebuild_events r"
    using download_run [of r w x "()" w'] by blast
next
  assume "\<not> check_exists r w \<and> download x r w = (Inr (), w')"
  then have "\<not> check_exists r w" and "download x r w = (Inr (), w')"
    by simp_all
  then show "\<exists>a_train v_train a_0 a_1 a_2 v.
        fst (read_amplitude_file (to_float x)
          (path_join (raw_folder r) ''train_amplitudes.npy'') w') = Inr a_train \<and>
        fst (read_velocity_file (to_float x)
          (path_join (raw_folder r) ''train_velocities.npy'') w') = Inr v_train \<and>
        fst (read_amplitude_file (to_float x)
          (path_join (raw_folder r) ''test_amplitudes.npy'') w') = Inr a_0 \<and>
        fst (read_amplitude_file (to_float x)
          (path_join (raw_folder r) ''test_amplitudes_noise_1.npy'') w') = Inr a_1 \<and>
        fst (read_amplitude_file (to_float x)
          (path_join (raw_folder r) ''test_amplitudes_noise_2.npy'') w') = Inr a_2 \<and>
        fst (read_velocity_file (to_float x)
          (path_join (raw_folder r) ''test_velocities.npy'') w') = Inr v \<and>
        fs w' (path_join (processed_folder r) training_file) = Some (File (Pt (a_train, v_train))) \<and>
        fs w' (path_join (processed_folder r) test_file_noise_0) = Some (File (Pt (a_0, v))) \<and>
        fs w' (path_join (processed_folder r) test_file_noise_1) = Some (File (Pt (a_1, v))) \<and>
        fs w' (path_join (processed_folder r) test_file_noise_2) = Some (File (Pt (a_2, v)))"
    by (rule download_rebuilds)
qed

theorem check_exists_all_four_witness:
  "\<not> check_exists ''data'' empty_world \<and>
   check_exists ''data'' cached_world \<and>
   fst (download sample_ext ''data'' empty_world) = Inr () \<and>
   trace (snd (download sample_ext ''data'' empty_world)) = rebuild_events ''data'' \<and>
   (\<exists>a_train v_train a_0 a_1 a_2 v.
        fst (read_amplitude_file (to_float sample_ext)
          (path_join (raw_folder ''data'') ''train_amplitudes.npy'') (snd (download sample_ext ''data'' empty_world))) = Inr a_train \<and>
        fst (read_velocity_file (to_float sample_ext)
          (path_join (raw_folder ''data'') ''train_velocities.npy'') (snd (download sample_ext ''data'' empty_world))) = Inr v_train \<and>
        fst (read_amplitude_file (to_float sample_ext)
          (path_join (raw_folder ''data'') ''test_amplitudes.npy'') (snd (download sample_ext ''data'' empty_world))) = Inr a_0 \<and>
        fst (read_amplitude_file (to_float sample_ext)
          (path_join (raw_folder ''data'') ''test_amplitudes_noise_1.npy'') (snd (download sample_ext ''data'' empty_world))) = Inr a_1 \<and>
        fst (read_amplitude_file (to_float sample_ext)
          (path_join (raw_folder ''data'') ''test_amplitudes_noise_2.npy'') (snd (download sample_ext ''data'' empty_world))) = Inr a_2 \<and>
        fst (read_velocity_file (to_float sample_ext)
          (path_join (raw_folder ''data'') ''test_velocities.npy'') (snd (download sample_ext ''data'' empty_world))) = Inr v \<and>
        fs (snd (download sample_ext ''data'' empty_world)) (path_join (processed_folder ''data'') training_file) = Some (File (Pt (a_train, v_train))) \<and>
        fs (snd (download sample_ext ''data'' empty_world)) (path_join (processed_folder ''data'') test_file_noise_0) = Some (File (Pt (a_0, v))) \<and>
        fs (snd (download sample_ext ''data'' empty_world)) (path_join (processed_folder ''data'') test_file_noise_1) = Some (File (Pt (a_1, v))) \<and>
        fs (snd (download sample_ext ''data'' empty_world)) (path_join (processed_folder ''data'') test_file_noise_2) = Some (File (Pt (a_2, v))))"
  using check_exists_all_four [where r = "''data''" and w = empty_world and x = sample_ext
      and w' = "snd (download sample_ext ''data'' empty_world)"]
    check_exists_all_four [where r = "''data''" and w = cached_world and x = sample_ext]
    sample_download_ok sample_download_run
  by (simp add: empty_world_def cached_world_def path_join_def)

text \<open>
  C7. If the cache is absent once the optional download step is over, the constructor
  raises RuntimeError "Dataset not found. You can use download=True to download it" and
  no dataset is built.
\<close>

theorem init_cache_missing:
  assumes "(if dl then download x (expanduser x r) w else (Inr (), w)) = (Inr (), w1)"
    and "\<not> check_exists (expanduser x r) w1"
  shows "init x r tr noise tf ttf dl w =
           (Inl (RuntimeError ''Dataset not found. You can use download=True to download it''), w1)"
  using assms by (simp add: init_def Let_def)

theorem init_cache_missing_witness:
  "init sample_ext ''data'' True 0
     (None :: (real tensor \<Rightarrow> py_error + (real, real) pyval) option) None False empty_world =
   (Inl (RuntimeError ''Dataset not found. You can use download=True to download it''), empty_world)"
  using init_cache_missing [where dl = False and x = sample_ext and r = "''data''"
      and w = empty_world and ?w1.0 = empty_world] empty_world_absent
  by (simp add: sample_expanduser)

text \<open>
  C8. After a rebuild, the three test entries hold the same target tensor, the
  conversion of the one file test\_velocities.npy, each next to the conversion of its own
  amplitude file.
\<close>

theorem test_partitions_share_targets:
  assumes "\<not> check_exists r w" and "download x r w = (Inr (), w')"
  shows "\<exists>a_0 a_1 a_2 t.
     fst (read_velocity_file (to_float x) (path_join (raw_folder r) ''test_velocities.npy'') w') = Inr t \<and>
     fst (read_amplitude_file (to_float x) (path_join (raw_folder r) ''test_amplitudes.npy'') w') = Inr a_0 \<and>
     fst (read_amplitude_file (to_float x) (path_join (raw_folder r) ''test_amplitudes_noise_1.npy'') w') = Inr a_1 \<and>
     fst (read_amplitude_file (to_float x) (path_join (raw_folder r) ''test_amplitudes_noise_2.npy'') w') = Inr a_2 \<and>
     fst (torch_load (path_join (processed_folder r) test_file_noise_0) w') = Inr (a_0, t) \<and>
     fst (torch_load (path_join (processed_folder r) test_file_noise_1) w') = Inr (a_1, t) \<and>
     fst (torch_load (path_join (processed_folder r) test_file_noise_2) w') = Inr (a_2, t)"
proof -
  from download_run [OF assms] obtain w0 a_train v_train a_0 a_1 a_2 v where
    a_0: "fst (read_amplitude_file (to_float x) (path_join (raw_folder r) ''test_amplitudes.npy'') w0) = Inr a_0" and
    a_1: "fst (read_amplitude_file (to_float x) (path_join (raw_folder r) ''test_amplitudes_noise_1.npy'') w0) = Inr a_1" and
    a_2: "fst (read_amplitude_file (to_float x) (path_join (raw_folder r) ''test_amplitudes_noise_2.npy'') w0) = Inr a_2" and
    v: "fst (read_velocity_file (to_float x) (path_join (raw_folder r) ''test_velocities.npy'') w0) = Inr v" and
    fs': "fs w' = (fs w0)
       (path_join (processed_folder r) training_file \<mapsto> File (Pt (a_train, v_train)),
        path_join (processed_folder r) test_file_noise_0 \<mapsto> File (Pt (a_0, v)),
        path_join (processed_folder r) test_file_noise_1 \<mapsto> File (Pt (a_1, v)),
        path_join (processed_folder r) test_file_noise_2 \<mapsto> File (Pt (a_2, v)))"
    by blast
  have raw: "fs w' (path_join (raw_folder r) (c # cs)) = fs w0 (path_join (raw_folder r) (c # cs))"
    if "c \<noteq> CHR ''/''" for c cs
    using that fs' raw_processed_distinct [of c _ r]
    by (simp add: training_file_def test_file_noise_0_def test_file_noise_1_def test_file_noise_2_def)
  have "fst (read_velocity_file (to_float x) (path_join (raw_folder r) ''test_velocities.npy'') w') = Inr v"
    using v fst_read_velocity_file_cong [OF raw] by simp
  moreover have "fst (read_amplitude_file (to_float x) (path_join (raw_folder r) ''test_amplitudes.npy'') w') = Inr a_0"
    using a_0 fst_read_amplitude_file_cong [OF raw] by simp
  moreover have "fst (read_amplitude_file (to_float x) (path_join (raw_folder r) ''test_amplitudes_noise_1.npy'') w') = Inr a_1"
    using a_1 fst_read_amplitude_file_cong [OF raw] by simp
  moreover have "fst (read_amplitude_file (to_float x) (path_join (raw_folder r) ''test_amplitudes_noise_2.npy'') w') = Inr a_2"
    using a_2 fst_read_amplitude_file_cong [OF raw] by simp
  moreover have "fst (torch_load (path_join (processed_folder r) test_file_noise_0) w') = Inr (a_0, v)"
    using fs' processed_paths_distinct [of r] by (intro fst_torch_load) simp
  moreover have "fst (torch_load (path_join (processed_folder r) test_file_noise_1) w') = Inr (a_1, v)"
    using fs' processed_paths_distinct [of r] by (intro fst_torch_load) simp
  moreover have "fst (torch_load (path_join (processed_folder r) test_file_noise_2) w') = Inr (a_2, v)"
    using fs' by (intro fst_torch_load) simp
  ultimately show ?thesis by blast
qed

theorem test_partitions_share_targets_witness:
  "\<not> check_exists ''data'' empty_world \<and>
   fst (download sample_ext ''data'' empty_world) = Inr () \<and>
   (\<exists>a_0 a_1 a_2 t.
     fst (read_velocity_file (to_float sample_ext)
       (path_join (raw_folder ''data'') ''test_velocities.npy'')
       (snd (download sample_ext ''data'' empty_world))) = Inr t \<and>
     fst (read_amplitude_file (to_float sample_ext)
       (path_join (raw_folder ''data'') ''test_amplitudes.npy'')
       (snd (download sample_ext ''data'' empty_world))) = Inr a_0 \<and>
     fst (read_amplitude_file (to_float sample_ext)
       (path_join (raw_folder ''data'') ''test_amplitudes_noise_1.npy'')
       (snd (download sample_ext ''data'' empty_world))) = Inr a_1 \<and>
     fst (read_amplitude_file (to_float sample_ext)
       (path_join (raw_folder ''data'') ''test_amplitudes_noise_2.npy'')
       (snd (download sample_ext ''data'' empty_world))) = Inr a_2 \<and>
     fst (torch_load (path_join (processed_folder ''data'') test_file_noise_0)
       (snd (download sample_ext ''data'' empty_world))) = Inr (a_0, t) \<and>
     fst (torch_load (path_join (processed_folder ''data'') test_file_noise_1)
       (snd (download sample_ext ''data'' empty_world))) = Inr (a_1, t) \<and>
     fst (torch_load (path_join (processed_folder ''data'') test_file_noise_2)
       (snd (download sample_ext ''data'' empty_world))) = Inr (a_2, t))"
  using test_partitions_share_targets [OF empty_world_absent sample_download_run]
    empty_world_absent sample_download_ok
  by simp

text \<open>
  C9. With \<open>train\<close> false, the cache present and \<open>noise\<close> none of 0, 1, 2, the constructor
  raises UnboundLocalError and the world is as before: no entry was loaded.
\<close>

theorem init_noise_unhandled:
  assumes "check_exists (expanduser x r) w" and "noise \<noteq> 0" and "noise \<noteq> 1" and "noise \<noteq> 2"
  shows "init x r False noise tf ttf dl w = (Inl UnboundLocalError, w)"
  using assms by (simp add: init_def Let_def download_def data_file_of_def)

theorem init_noise_unhandled_witness:
  "init sample_ext ''data'' False 3
     (None :: (real tensor \<Rightarrow> py_error + (real, real) pyval) option) None False cached_world =
   (Inl UnboundLocalError, cached_world)"
  using init_noise_unhandled [where x = sample_ext and r = "''data''" and w = cached_world
      and noise = 3] cached_world_present
  by (simp add: sample_expanduser)

text \<open>
  C10. On a constructed dataset, whatever the \<open>train\<close> flag, \<^verbatim>\<open>train_labels\<close> and
  \<^verbatim>\<open>test_labels\<close> return the loaded targets, \<^verbatim>\<open>train_data\<close> and \<^verbatim>\<open>test_data\<close> the loaded
  data (the pair stored in the selected entry); each read adds its warning to the trace
  and changes nothing else.
\<close>

theorem renamed_attributes:
  assumes "init x r tr noise tf ttf dl w = (Inr self, w1)"
  shows "train_labels self w2 = (targets self, emit (EWarn ''train_labels has been renamed targets'') w2) \<and>
         test_labels self w2 = (targets self, emit (EWarn ''test_labels has been renamed targets'') w2) \<and>
         train_data self w2 = (data self, emit (EWarn ''train_data has been renamed data'') w2) \<and>
         test_data self w2 = (data self, emit (EWarn ''test_data has been renamed data'') w2) \<and>
         (\<exists>data_file. data_file_of tr noise = Some data_file \<and>
            fs w1 (path_join (processed_folder (expanduser x r)) data_file) = Some (File (Pt (data self, targets self))))"
  using assms
  apply (simp add: train_labels_def test_labels_def train_data_def test_data_def warn_def)
  apply (auto simp: init_def Let_def torch_load_def split: prod.splits sum.splits if_splits option.splits node.splits content.splits)
  done

theorem renamed_attributes_witness:
  "init sample_ext ''data'' False 1 None None False cached_world =
     (Inr loaded_ds, emit (ETorchLoad ''data/SNIST/processed/test_noise_1.pt'') cached_world) \<and>
   train_labels loaded_ds cached_world =
     (\<lparr>shape = [1], elems = [9]\<rparr>, emit (EWarn ''train_labels has been renamed targets'') cached_world) \<and>
   test_labels loaded_ds cached_world =
     (\<lparr>shape = [1], elems = [9]\<rparr>, emit (EWarn ''test_labels has been renamed targets'') cached_world) \<and>
   train_data loaded_ds cached_world =
     (\<lparr>shape = [1, 1, 1, 2], elems = [10, 11]\<rparr>,
      emit (EWarn ''train_data has been renamed data'') cached_world) \<and>
   test_data loaded_ds cached_world =
     (\<lparr>shape = [1, 1, 1, 2], elems = [10, 11]\<rparr>,
      emit (EWarn ''test_data has been renamed data'') cached_world)"
  using renamed_attributes [OF sample_init, of cached_world] sample_init
  by (simp add: loaded_ds_def)

end
